theory Spec2Isabelle
  imports Main "HOL-Library.Word"
begin

unbundle bit_operations_syntax

section \<open>The BL808 watchdog driver, drivers/watchdog/bflb_wdt.c\<close>

text \<open>
  The driver talks to a block of memory-mapped registers. C's \<open>unsigned int\<close> and
  \<open>uint32_t\<close> are 32-bit words, the value of \<open>writew\<close>/\<open>readw\<close> is a 16-bit word.
  The integer constants of the macros are all small and non-negative, so they are given
  the type of the unsigned variable they are combined with.
\<close>

type_synonym u16 = "16 word"
type_synonym u32 = "32 word"

subsection \<open>Macros\<close>

definition BFLB_INT_TICKS_PER_SEC :: u32 where "BFLB_INT_TICKS_PER_SEC = 1024"
definition BFLB_TICK_DIV :: u32 where "BFLB_TICK_DIV = 256"
definition BFLB_TICKS_PER_SEC :: u32 where
  "BFLB_TICKS_PER_SEC = BFLB_INT_TICKS_PER_SEC div BFLB_TICK_DIV"
definition BFLB_MAX_SECS :: u32 where "BFLB_MAX_SECS = 65535 div BFLB_TICKS_PER_SEC"

definition BFLB_DEFAULT_TIMEOUT :: u32 where "BFLB_DEFAULT_TIMEOUT = 60"

definition BFLB_REG_WFAR :: nat where "BFLB_REG_WFAR = 0x9C"
definition BFLB_VAL_WFAR :: u16 where "BFLB_VAL_WFAR = 0xBABA"

definition BFLB_REG_WSAR :: nat where "BFLB_REG_WSAR = 0xA0"
definition BFLB_VAL_WSAR :: u16 where "BFLB_VAL_WSAR = 0xEB10"

definition BFLB_REG_WVR :: nat where "BFLB_REG_WVR = 0x6C"
definition BFLB_REG_WCR :: nat where "BFLB_REG_WCR = 0x98"
definition BFLB_VAL_WCR :: u32 where "BFLB_VAL_WCR = 0x1"

definition BFLB_REG_WMER :: nat where "BFLB_REG_WMER = 0x64"
definition BFLB_VAL_WE :: u32 where "BFLB_VAL_WE = 0x1"
definition BFLB_VAL_WRIE :: u32 where "BFLB_VAL_WRIE = 0x2"

definition BFLB_REG_TCCR :: nat where "BFLB_REG_TCCR = 0x00"
definition BFLB_MASK_CS_WDT :: u32 where "BFLB_MASK_CS_WDT = 0xF00"
definition BFLB_VAL_CS_1K :: u32 where "BFLB_VAL_CS_1K = 0x200"

definition BFLB_REG_TCDR :: nat where "BFLB_REG_TCDR = 0xBC"
definition BFLB_MASK_TCDR :: u32 where "BFLB_MASK_TCDR = 0xFF000000"
definition BFLB_VAL_TCDR :: u32 where "BFLB_VAL_TCDR = 0xFF000000"

definition BFLB_REG_WMR :: nat where "BFLB_REG_WMR = 0x68"
definition BFLB_MASK_WMR :: u32 where "BFLB_MASK_WMR = 0xFFFF"
definition BFLB_VAL_WMR :: u32 where "BFLB_VAL_WMR = 240"

definition ENOMEM :: int where "ENOMEM = 12"
definition EINVAL :: int where "EINVAL = 22"

subsection \<open>State\<close>

text \<open>
  The register block is the device memory that \<open>bflb_wdd->regs\<close> points to: a map from
  the byte offset of a register to its 32-bit content. Every offset the driver uses is a
  multiple of four, and the target is little-endian, so the 16-bit access at an offset is
  the low half of the word there. The block is modelled as memory: a read returns what
  was last written.

  Besides the block, the state keeps two observations of what the code did: the bus
  accesses in the order they were issued, and the lines handed to the kernel log
  (\<open>dev_dbg\<close> lines are recorded whether or not the kernel is built to print them).
\<close>

type_synonym regblock = "nat \<Rightarrow> u32"

datatype io_event = Readw nat | Readl nat | Writew nat u16 | Writel nat u32

datatype loglevel = KERN_DEBUG | KERN_INFO | KERN_WARNING

type_synonym log_entry = "loglevel \<times> string \<times> u32 list"

text \<open>
  The fields of \<open>struct watchdog_device\<close> that the driver reads or writes. The three
  flags stand for the bits of \<open>wdd->status\<close> that the probe sets.
\<close>

record watchdog_device =
  timeout :: u32
  min_timeout :: u32
  max_timeout :: u32
  stop_on_reboot :: bool
  stop_on_unregister :: bool
  no_way_out :: bool

text \<open>
  \<open>struct bflb_watchdog_device\<close>, with the content of the register block in place of
  the pointer to it, and the two observations. The functions of the driver receive the
  embedded \<open>wdd\<close> and recover the container by \<open>to_bflb_wdd\<close>; here they receive the
  container.
\<close>

record bflb_watchdog_device =
  wdd :: watchdog_device
  regs :: regblock
  bus :: "io_event list"
  klog :: "log_entry list"

subsection \<open>Register access and logging\<close>

text \<open>A 16-bit store replaces the low half of the word and leaves the high half.\<close>

definition store16 :: "u32 \<Rightarrow> u16 \<Rightarrow> u32" where
  "store16 x v = (x AND NOT 0xFFFF) OR ucast v"

definition writew :: "u16 \<Rightarrow> nat \<Rightarrow> bflb_watchdog_device \<Rightarrow> bflb_watchdog_device" where
  "writew v off d =
     d\<lparr>regs := (regs d)(off := store16 (regs d off) v), bus := bus d @ [Writew off v]\<rparr>"

definition writel :: "u32 \<Rightarrow> nat \<Rightarrow> bflb_watchdog_device \<Rightarrow> bflb_watchdog_device" where
  "writel v off d = d\<lparr>regs := (regs d)(off := v), bus := bus d @ [Writel off v]\<rparr>"

definition readw :: "nat \<Rightarrow> bflb_watchdog_device \<Rightarrow> u16 \<times> bflb_watchdog_device" where
  "readw off d = (ucast (regs d off), d\<lparr>bus := bus d @ [Readw off]\<rparr>)"

definition readl :: "nat \<Rightarrow> bflb_watchdog_device \<Rightarrow> u32 \<times> bflb_watchdog_device" where
  "readl off d = (regs d off, d\<lparr>bus := bus d @ [Readl off]\<rparr>)"

definition dev_printk ::
  "loglevel \<Rightarrow> string \<Rightarrow> u32 list \<Rightarrow> bflb_watchdog_device \<Rightarrow> bflb_watchdog_device" where
  "dev_printk lvl fmt args d = d\<lparr>klog := klog d @ [(lvl, fmt, args)]\<rparr>"

subsection \<open>The operations\<close>

definition bflb_unlock_watchdog :: "bflb_watchdog_device \<Rightarrow> int \<times> bflb_watchdog_device" where
  "bflb_unlock_watchdog d =
     (let d = writew BFLB_VAL_WFAR BFLB_REG_WFAR d;
          d = writew BFLB_VAL_WSAR BFLB_REG_WSAR d
      in (0, d))"

definition bflb_wdt_ping :: "bflb_watchdog_device \<Rightarrow> int \<times> bflb_watchdog_device" where
  "bflb_wdt_ping d =
     (let d = dev_printk KERN_DEBUG ''bflb_wdt_ping'' [] d;
          (_, d) = bflb_unlock_watchdog d;
          (reg_val, d) = readl BFLB_REG_WCR d;
          reg_val = reg_val OR BFLB_VAL_WCR;
          d = writel reg_val BFLB_REG_WCR d
      in (0, d))"

definition bflb_wdt_update_timeout_reg :: "bflb_watchdog_device \<Rightarrow> bflb_watchdog_device" where
  "bflb_wdt_update_timeout_reg d =
     (let (_, d) = bflb_unlock_watchdog d;
          timeout_ticks = timeout (wdd d) * BFLB_TICKS_PER_SEC;
          d = writew (ucast timeout_ticks) BFLB_REG_WMR d
      in d)"

definition bflb_wdt_set_timeout ::
  "bflb_watchdog_device \<Rightarrow> u32 \<Rightarrow> int \<times> bflb_watchdog_device" where
  "bflb_wdt_set_timeout d t =
     (let (t, d) =
            (if t \<ge> max_timeout (wdd d)
             then (max_timeout (wdd d),
                   dev_printk KERN_WARNING
                     ''timeout %i > max_timeout %i, using max_timeout...''
                     [t, max_timeout (wdd d)] d)
             else (t, d));
          d = d\<lparr>wdd := (wdd d)\<lparr>timeout := t\<rparr>\<rparr>;
          d = bflb_wdt_update_timeout_reg d;
          d = dev_printk KERN_DEBUG ''bflb_wdt_set_timeout (s=%i tps=%i)''
                [t, BFLB_TICKS_PER_SEC] d
      in (0, d))"

definition bflb_wdt_start :: "bflb_watchdog_device \<Rightarrow> int \<times> bflb_watchdog_device" where
  "bflb_wdt_start d =
     (let (_, d) = bflb_unlock_watchdog d;
          (reg_val, d) = readl BFLB_REG_WMER d;
          reg_val = reg_val OR BFLB_VAL_WE;
          d = writel reg_val BFLB_REG_WMER d;
          d = dev_printk KERN_INFO ''bflb_wdt_start started...'' [] d
      in (0, d))"

definition bflb_wdt_stop :: "bflb_watchdog_device \<Rightarrow> int \<times> bflb_watchdog_device" where
  "bflb_wdt_stop d =
     (let (_, d) = bflb_unlock_watchdog d;
          (reg_val, d) = readl BFLB_REG_WMER d;
          reg_val = reg_val AND NOT BFLB_VAL_WE;
          d = writel reg_val BFLB_REG_WMER d;
          d = dev_printk KERN_INFO ''bflb_wdt_stopped...'' [] d
      in (0, d))"

definition bflb_wdt_timeleft :: "bflb_watchdog_device \<Rightarrow> u32 \<times> bflb_watchdog_device" where
  "bflb_wdt_timeleft d =
     (let (ticks16, d) = readw BFLB_REG_WVR d;
          ticks = (ucast ticks16 :: u32);
          used_seconds = ticks div BFLB_TICKS_PER_SEC;
          remaining_seconds = max_timeout (wdd d) - used_seconds;
          d = dev_printk KERN_DEBUG ''bflb_wdt_time left %i (elapsed tick %i, sec %i)''
                [remaining_seconds, ticks, used_seconds] d
      in (remaining_seconds, d))"

subsection \<open>The probe\<close>

text \<open>
  What the probe receives from the platform: whether \<open>devm_kzalloc\<close> returns memory,
  whether \<open>devm_ioremap_resource\<close> maps the block (\<open>Some e\<close> is an error pointer with
  \<open>PTR_ERR\<close> equal to \<open>e\<close>), the content of the block at that moment, the value of
  \<open>WATCHDOG_NOWAYOUT\<close> in the kernel configuration, and what
  \<open>devm_watchdog_register_device\<close> returns.
\<close>

record platform_device =
  kzalloc_ok :: bool
  ioremap_err :: "int option"
  resource :: regblock
  nowayout_config :: bool
  register_err :: int

text \<open>
  Modelled from the spec: the helpers of the watchdog core, which are declared in
  \<open>include/linux/watchdog.h\<close> and defined in \<open>drivers/watchdog/watchdog_core.c\<close>,
  neither among the sources. The spec names them as the stop-on-reboot and
  stop-on-unregister hooks and the "no way out" policy flag, each a flag of the device.
\<close>

definition watchdog_stop_on_reboot :: "watchdog_device \<Rightarrow> watchdog_device" where
  "watchdog_stop_on_reboot w = w\<lparr>stop_on_reboot := True\<rparr>"

definition watchdog_stop_on_unregister :: "watchdog_device \<Rightarrow> watchdog_device" where
  "watchdog_stop_on_unregister w = w\<lparr>stop_on_unregister := True\<rparr>"

definition watchdog_set_nowayout :: "watchdog_device \<Rightarrow> bool \<Rightarrow> watchdog_device" where
  "watchdog_set_nowayout w nowayout = (if nowayout then w\<lparr>no_way_out := True\<rparr> else w)"

text \<open>
  Modelled from the spec: \<open>watchdog_init_timeout\<close> of the watchdog core
  (\<open>drivers/watchdog/watchdog_core.c\<close>, not among the sources). The spec: the requested
  default is clamped into [min, max]; below min it is an error to the caller, above max it
  is clamped.
\<close>

definition watchdog_init_timeout :: "watchdog_device \<Rightarrow> u32 \<Rightarrow> int \<times> watchdog_device" where
  "watchdog_init_timeout w timeout_parm =
     (if timeout_parm < min_timeout w then (- EINVAL, w)
      else if timeout_parm > max_timeout w then (0, w\<lparr>timeout := max_timeout w\<rparr>)
      else (0, w\<lparr>timeout := timeout_parm\<rparr>))"

text \<open>The memory that \<open>devm_kzalloc\<close> returns is zeroed.\<close>

definition kzalloc_wdd :: watchdog_device where
  "kzalloc_wdd =
     \<lparr>timeout = 0, min_timeout = 0, max_timeout = 0,
      stop_on_reboot = False, stop_on_unregister = False, no_way_out = False\<rparr>"

text \<open>
  The probe starts from the zeroed structure and the block as the platform hands it over.
  \<open>platform_set_drvdata\<close> and the assignments of \<open>info\<close>, \<open>ops\<close> and \<open>parent\<close> store
  pointers that no operation of the driver reads back; they are left out.
\<close>

definition bflb_wdt_probe :: "platform_device \<Rightarrow> int \<times> bflb_watchdog_device" where
  "bflb_wdt_probe pdev =
     (let d = \<lparr>wdd = kzalloc_wdd, regs = resource pdev, bus = [], klog = []\<rparr>;
          d = dev_printk KERN_DEBUG ''bflb_wdt_probe started'' [] d
      in if \<not> kzalloc_ok pdev then (- ENOMEM, d)
         else case ioremap_err pdev of
           Some e \<Rightarrow> (e, d)
         | None \<Rightarrow>
            (let w = wdd d;
                 w = w\<lparr>timeout := BFLB_DEFAULT_TIMEOUT\<rparr>;
                 w = w\<lparr>max_timeout := BFLB_MAX_SECS\<rparr>;
                 w = w\<lparr>min_timeout := 1\<rparr>;
                 w = watchdog_stop_on_reboot w;
                 w = watchdog_stop_on_unregister w;
                 w = watchdog_set_nowayout w (nowayout_config pdev);
                 (_, w) = watchdog_init_timeout w BFLB_DEFAULT_TIMEOUT;
                 d = d\<lparr>wdd := w\<rparr>;
                 (_, d) = bflb_unlock_watchdog d;
                 (reg_val, d) = readl BFLB_REG_WMER d;
                 reg_val = reg_val AND NOT BFLB_VAL_WE;
                 reg_val = reg_val OR BFLB_VAL_WRIE;
                 d = writel reg_val BFLB_REG_WMER d;
                 (reg_val, d) = readl BFLB_REG_TCCR d;
                 reg_val = reg_val AND NOT BFLB_MASK_CS_WDT;
                 reg_val = reg_val OR BFLB_VAL_CS_1K;
                 d = writel reg_val BFLB_REG_TCCR d;
                 (reg_val, d) = readl BFLB_REG_TCDR d;
                 reg_val = reg_val AND NOT BFLB_MASK_TCDR;
                 reg_val = reg_val OR BFLB_VAL_TCDR;
                 d = writel reg_val BFLB_REG_TCDR d;
                 d = bflb_wdt_update_timeout_reg d;
                 err = register_err pdev
             in if err \<noteq> 0 then (err, d)
                else (0, dev_printk KERN_INFO ''bflb_wdt_probe completed...'' [] d)))"

section \<open>Vocabulary of the properties\<close>

text \<open>What the two key writes of \<open>bflb_unlock_watchdog\<close> leave in the block and on the bus.\<close>

definition unlocked :: "regblock \<Rightarrow> regblock" where
  "unlocked r = r(BFLB_REG_WFAR := store16 (r BFLB_REG_WFAR) BFLB_VAL_WFAR,
                 BFLB_REG_WSAR := store16 (r BFLB_REG_WSAR) BFLB_VAL_WSAR)"

definition unlock_seq :: "io_event list" where
  "unlock_seq = [Writew BFLB_REG_WFAR BFLB_VAL_WFAR, Writew BFLB_REG_WSAR BFLB_VAL_WSAR]"

text \<open>The bus accesses and the log lines that a call added to a state.\<close>

definition issued :: "bflb_watchdog_device \<Rightarrow> bflb_watchdog_device \<Rightarrow> io_event list" where
  "issued d d' = drop (length (bus d)) (bus d')"

definition logged :: "bflb_watchdog_device \<Rightarrow> bflb_watchdog_device \<Rightarrow> log_entry list" where
  "logged d d' = drop (length (klog d)) (klog d')"

text \<open>The state that a probe with a mapped block leaves, field by field.\<close>

definition probed_wdd :: "bool \<Rightarrow> watchdog_device" where
  "probed_wdd nwo =
     \<lparr>timeout = 60, min_timeout = 1, max_timeout = 16383,
      stop_on_reboot = True, stop_on_unregister = True, no_way_out = nwo\<rparr>"

definition probed_regs :: "regblock \<Rightarrow> regblock" where
  "probed_regs r = (unlocked r)
     (BFLB_REG_WMER := (r BFLB_REG_WMER AND NOT BFLB_VAL_WE) OR BFLB_VAL_WRIE,
      BFLB_REG_TCCR := (r BFLB_REG_TCCR AND NOT BFLB_MASK_CS_WDT) OR BFLB_VAL_CS_1K,
      BFLB_REG_TCDR := (r BFLB_REG_TCDR AND NOT BFLB_MASK_TCDR) OR BFLB_VAL_TCDR,
      BFLB_REG_WMR := store16 (r BFLB_REG_WMR) 240)"

definition probed_bus :: "regblock \<Rightarrow> io_event list" where
  "probed_bus r = unlock_seq @
     [Readl BFLB_REG_WMER,
      Writel BFLB_REG_WMER ((r BFLB_REG_WMER AND NOT BFLB_VAL_WE) OR BFLB_VAL_WRIE),
      Readl BFLB_REG_TCCR,
      Writel BFLB_REG_TCCR ((r BFLB_REG_TCCR AND NOT BFLB_MASK_CS_WDT) OR BFLB_VAL_CS_1K),
      Readl BFLB_REG_TCDR,
      Writel BFLB_REG_TCDR ((r BFLB_REG_TCDR AND NOT BFLB_MASK_TCDR) OR BFLB_VAL_TCDR)] @
     unlock_seq @ [Writew BFLB_REG_WMR 240]"

text \<open>
  Platforms: any platform with the allocation and the mapping forced to succeed, and a
  concrete one whose block holds the same value in every register.
\<close>

definition pdev_mapped :: "platform_device \<Rightarrow> platform_device" where
  "pdev_mapped pdev = pdev\<lparr>kzalloc_ok := True, ioremap_err := None\<rparr>"

definition const_regs :: "u32 \<Rightarrow> regblock" where
  "const_regs v off = v"

definition pdev_ok :: "regblock \<Rightarrow> platform_device" where
  "pdev_ok r = \<lparr>kzalloc_ok = True, ioremap_err = None, resource = r,
                nowayout_config = False, register_err = 0\<rparr>"

subsection \<open>The write protection as an automaton\<close>

text \<open>
  The discipline "a protected write comes right after the two keys, and each pair of keys
  opens one protected write" as a checker over a sequence of bus accesses. The lock opens
  by the write of \<open>BFLB_VAL_WFAR\<close> to \<open>BFLB_REG_WFAR\<close> followed directly by the write of
  \<open>BFLB_VAL_WSAR\<close> to \<open>BFLB_REG_WSAR\<close>. Any other write closes it. A write to a protected
  offset while the lock is not open is a violation (\<open>None\<close>). Reads leave the lock as it
  is, so the read of a read-modify-write may stand between the keys and the write.
\<close>

datatype lock = Locked | KeyA | Unlocked

definition is_write :: "io_event \<Rightarrow> bool" where
  "is_write e = (case e of Writew _ _ \<Rightarrow> True | Writel _ _ \<Rightarrow> True | _ \<Rightarrow> False)"

definition offset_of :: "io_event \<Rightarrow> nat" where
  "offset_of e = (case e of Readw a \<Rightarrow> a | Readl a \<Rightarrow> a | Writew a _ \<Rightarrow> a | Writel a _ \<Rightarrow> a)"

definition lock_step :: "nat list \<Rightarrow> lock \<Rightarrow> io_event \<Rightarrow> lock option" where
  "lock_step prot l e =
     (if \<not> is_write e then Some l
      else if e = Writew BFLB_REG_WFAR BFLB_VAL_WFAR then Some KeyA
      else if e = Writew BFLB_REG_WSAR BFLB_VAL_WSAR \<and> l = KeyA then Some Unlocked
      else if List.member prot (offset_of e) then (if l = Unlocked then Some Locked else None)
      else Some Locked)"

fun lock_run :: "nat list \<Rightarrow> lock \<Rightarrow> io_event list \<Rightarrow> bool" where
  "lock_run prot l [] = True"
| "lock_run prot l (e # es) =
     (case lock_step prot l e of None \<Rightarrow> False | Some l' \<Rightarrow> lock_run prot l' es)"

text \<open>
  The five registers that the specification calls protected, and the three of them that
  belong to the watchdog proper.
\<close>

definition protected_regs :: "nat list" where
  "protected_regs = [BFLB_REG_WMER, BFLB_REG_WMR, BFLB_REG_WCR, BFLB_REG_TCCR, BFLB_REG_TCDR]"

definition watchdog_regs :: "nat list" where
  "watchdog_regs = [BFLB_REG_WMER, BFLB_REG_WMR, BFLB_REG_WCR]"

text \<open>The writes, among a sequence of bus accesses, that go to the clock source register
  or to the pre-divider register.\<close>

definition clock_writes :: "io_event list \<Rightarrow> io_event list" where
  "clock_writes es =
     filter (\<lambda>e. is_write e \<and> (offset_of e = BFLB_REG_TCCR \<or> offset_of e = BFLB_REG_TCDR)) es"

section \<open>What each function does, in closed form\<close>

lemmas bflb_regs =
  BFLB_REG_WFAR_def BFLB_REG_WSAR_def BFLB_REG_WVR_def BFLB_REG_WCR_def
  BFLB_REG_WMER_def BFLB_REG_TCCR_def BFLB_REG_TCDR_def BFLB_REG_WMR_def

lemmas bflb_vals =
  BFLB_VAL_WFAR_def BFLB_VAL_WSAR_def BFLB_VAL_WCR_def BFLB_VAL_WE_def
  BFLB_VAL_WRIE_def BFLB_MASK_CS_WDT_def BFLB_VAL_CS_1K_def BFLB_MASK_TCDR_def
  BFLB_VAL_TCDR_def

lemmas tick_defs =
  BFLB_MAX_SECS_def BFLB_TICKS_PER_SEC_def BFLB_INT_TICKS_PER_SEC_def BFLB_TICK_DIV_def
  BFLB_DEFAULT_TIMEOUT_def

lemmas io_defs = writew_def writel_def readw_def readl_def dev_printk_def

lemmas lock_defs =
  lock_step_def is_write_def offset_of_def protected_regs_def watchdog_regs_def
  unlock_seq_def bflb_regs BFLB_VAL_WFAR_def BFLB_VAL_WSAR_def

subsection \<open>Words\<close>

lemma mask16: "(0xFFFF::u32) = mask 16"
  by (simp add: mask_eq_exp_minus_1)

lemma mask_wmr: "BFLB_MASK_WMR = 0xFFFF"
  by (simp add: BFLB_MASK_WMR_def)

lemma store16_store16 [simp]: "store16 (store16 x a) b = store16 x b"
  unfolding store16_def mask16
  by (rule bit_word_eqI) (auto simp: bit_simps dest: bit_imp_le_length)

lemma store16_low: "store16 x v AND 0xFFFF = ucast v"
  unfolding store16_def mask16
  by (rule bit_word_eqI) (auto simp: bit_simps dest: bit_imp_le_length)

lemma ucast_low16: "ucast (ucast (x::u32) :: u16) = x AND 0xFFFF"
  unfolding mask16 by (rule bit_word_eqI) (auto simp: bit_simps)

lemma unat_ucast_up: "unat (ucast (e::u16) :: u32) = unat e"
proof -
  have "unat e < 2 ^ 16" using unsigned_less [of e] by simp
  then have "unat e < 2 ^ 32" by simp
  then show ?thesis by (simp add: unsigned_ucast_eq take_bit_nat_eq_self)
qed

lemma unat_used_seconds:
  "unat (ucast (e::u16) div BFLB_TICKS_PER_SEC :: u32) = unat e div 4"
  by (simp add: tick_defs unat_div unat_ucast_up)

lemma unat_ticks16:
  "unat (ucast (x * BFLB_TICKS_PER_SEC :: u32) :: u16) = (unat x * 4) mod 65536"
proof -
  have "unat (ucast (x * 4 :: u32) :: u16) = unat (x * 4) mod 2 ^ 16"
    by (simp add: unsigned_ucast_eq take_bit_eq_mod)
  also have "\<dots> = ((unat x * 4) mod 2 ^ 32) mod 2 ^ 16"
    by (simp add: unat_word_ariths)
  also have "\<dots> = (unat x * 4) mod 2 ^ 16"
    by (simp add: mod_mod_cancel)
  finally show ?thesis by (simp add: tick_defs)
qed

lemma bit_512: "bit (512::int) n = (n = 9)"
proof -
  have "(512::int) = 2 ^ 9" by simp
  then show ?thesis by (simp only: bit_exp_iff) auto
qed

lemma bit_2: "bit (2::int) n = (n = 1)"
  using bit_exp_iff [of 1 n, where ?'a = int] by auto

lemma cs_field:
  "drop_bit 8 (((x::u32) AND NOT 0xF00) OR 0x200) AND 0xF = 2"
  "(((x::u32) AND NOT 0xF00) OR 0x200) AND NOT 0xF00 = x AND NOT 0xF00"
proof -
  have k: "(0xF00::u32) = push_bit 8 (mask 4)" "(0xF::u32) = mask 4"
    by (simp_all add: mask_eq_exp_minus_1 push_bit_eq_mult)
  show "drop_bit 8 (((x::u32) AND NOT 0xF00) OR 0x200) AND 0xF = 2"
    unfolding k by (rule bit_word_eqI) (auto simp: bit_simps bit_512 bit_2)
  show "(((x::u32) AND NOT 0xF00) OR 0x200) AND NOT 0xF00 = x AND NOT 0xF00"
    unfolding k by (rule bit_word_eqI) (auto simp: bit_simps bit_512)
qed

lemma div_field:
  "drop_bit 24 (((x::u32) AND NOT 0xFF000000) OR 0xFF000000) = 0xFF"
  "(((x::u32) AND NOT 0xFF000000) OR 0xFF000000) AND 0x00FFFFFF = x AND 0x00FFFFFF"
proof -
  have k: "(0xFF000000::u32) = push_bit 24 (mask 8)" "(0x00FFFFFF::u32) = mask 24"
          "(0xFF::u32) = mask 8"
    by (simp_all add: mask_eq_exp_minus_1 push_bit_eq_mult)
  show "drop_bit 24 (((x::u32) AND NOT 0xFF000000) OR 0xFF000000) = 0xFF"
    unfolding k by (rule bit_word_eqI) (auto simp: bit_simps)
  show "(((x::u32) AND NOT 0xFF000000) OR 0xFF000000) AND 0x00FFFFFF = x AND 0x00FFFFFF"
    unfolding k by (rule bit_word_eqI) (auto simp: bit_simps)
qed

lemma mode_bits:
  "bit (((x::u32) AND NOT 1) OR 2) n = (n = 1 \<or> (n \<noteq> 0 \<and> bit x n))"
  by (auto simp: bit_simps bit_2 dest: bit_imp_le_length)

subsection \<open>Functions\<close>

lemma unlock_effect:
  "bflb_unlock_watchdog d = (0, d\<lparr>regs := unlocked (regs d), bus := bus d @ unlock_seq\<rparr>)"
  by (simp add: bflb_unlock_watchdog_def io_defs unlocked_def unlock_seq_def bflb_regs Let_def)

lemma start_effect:
  "bflb_wdt_start d =
    (0, d\<lparr>regs := (unlocked (regs d))(BFLB_REG_WMER := regs d BFLB_REG_WMER OR BFLB_VAL_WE),
          bus := bus d @ unlock_seq @
                 [Readl BFLB_REG_WMER, Writel BFLB_REG_WMER (regs d BFLB_REG_WMER OR BFLB_VAL_WE)],
          klog := klog d @ [(KERN_INFO, ''bflb_wdt_start started...'', [])]\<rparr>)"
  by (simp add: bflb_wdt_start_def unlock_effect io_defs unlocked_def bflb_regs Let_def)

lemma stop_effect:
  "bflb_wdt_stop d =
    (0, d\<lparr>regs := (unlocked (regs d))(BFLB_REG_WMER := regs d BFLB_REG_WMER AND NOT BFLB_VAL_WE),
          bus := bus d @ unlock_seq @
                 [Readl BFLB_REG_WMER,
                  Writel BFLB_REG_WMER (regs d BFLB_REG_WMER AND NOT BFLB_VAL_WE)],
          klog := klog d @ [(KERN_INFO, ''bflb_wdt_stopped...'', [])]\<rparr>)"
  by (simp add: bflb_wdt_stop_def unlock_effect io_defs unlocked_def bflb_regs Let_def)

lemma ping_effect:
  "bflb_wdt_ping d =
    (0, d\<lparr>regs := (unlocked (regs d))(BFLB_REG_WCR := regs d BFLB_REG_WCR OR BFLB_VAL_WCR),
          bus := bus d @ unlock_seq @
                 [Readl BFLB_REG_WCR, Writel BFLB_REG_WCR (regs d BFLB_REG_WCR OR BFLB_VAL_WCR)],
          klog := klog d @ [(KERN_DEBUG, ''bflb_wdt_ping'', [])]\<rparr>)"
  by (simp add: bflb_wdt_ping_def unlock_effect io_defs unlocked_def bflb_regs Let_def)

lemma update_timeout_reg_effect:
  "bflb_wdt_update_timeout_reg d =
    d\<lparr>regs := (unlocked (regs d))
            (BFLB_REG_WMR := store16 (regs d BFLB_REG_WMR)
                               (ucast (timeout (wdd d) * BFLB_TICKS_PER_SEC))),
      bus := bus d @ unlock_seq @
             [Writew BFLB_REG_WMR (ucast (timeout (wdd d) * BFLB_TICKS_PER_SEC))]\<rparr>"
  by (simp add: bflb_wdt_update_timeout_reg_def unlock_effect io_defs unlocked_def bflb_regs
      Let_def)

lemma set_timeout_effect:
  "bflb_wdt_set_timeout d t =
    (0, d\<lparr>wdd := (wdd d)\<lparr>timeout := min t (max_timeout (wdd d))\<rparr>,
          regs := (unlocked (regs d))
            (BFLB_REG_WMR := store16 (regs d BFLB_REG_WMR)
                (ucast (min t (max_timeout (wdd d)) * BFLB_TICKS_PER_SEC))),
          bus := bus d @ unlock_seq @
             [Writew BFLB_REG_WMR (ucast (min t (max_timeout (wdd d)) * BFLB_TICKS_PER_SEC))],
          klog := klog d @
             (if t \<ge> max_timeout (wdd d)
              then [(KERN_WARNING, ''timeout %i > max_timeout %i, using max_timeout...'',
                     [t, max_timeout (wdd d)])]
              else []) @
             [(KERN_DEBUG, ''bflb_wdt_set_timeout (s=%i tps=%i)'',
               [min t (max_timeout (wdd d)), BFLB_TICKS_PER_SEC])]\<rparr>)"
  by (simp add: bflb_wdt_set_timeout_def update_timeout_reg_effect dev_printk_def Let_def
      min_def)

lemma timeleft_effect:
  "bflb_wdt_timeleft d =
    (max_timeout (wdd d) - ucast (ucast (regs d BFLB_REG_WVR) :: u16) div BFLB_TICKS_PER_SEC,
     d\<lparr>bus := bus d @ [Readw BFLB_REG_WVR],
       klog := klog d @ [(KERN_DEBUG, ''bflb_wdt_time left %i (elapsed tick %i, sec %i)'',
          [max_timeout (wdd d) - ucast (ucast (regs d BFLB_REG_WVR) :: u16) div BFLB_TICKS_PER_SEC,
           ucast (ucast (regs d BFLB_REG_WVR) :: u16),
           ucast (ucast (regs d BFLB_REG_WVR) :: u16) div BFLB_TICKS_PER_SEC])]\<rparr>)"
  by (simp add: bflb_wdt_timeleft_def io_defs Let_def)

lemma probe_effect:
  "bflb_wdt_probe pdev =
    (if \<not> kzalloc_ok pdev
     then (- ENOMEM, \<lparr>wdd = kzalloc_wdd, regs = resource pdev, bus = [],
                       klog = [(KERN_DEBUG, ''bflb_wdt_probe started'', [])]\<rparr>)
     else case ioremap_err pdev of
       Some e \<Rightarrow> (e, \<lparr>wdd = kzalloc_wdd, regs = resource pdev, bus = [],
                       klog = [(KERN_DEBUG, ''bflb_wdt_probe started'', [])]\<rparr>)
     | None \<Rightarrow>
        (register_err pdev,
         \<lparr>wdd = probed_wdd (nowayout_config pdev),
          regs = probed_regs (resource pdev),
          bus = probed_bus (resource pdev),
          klog = (KERN_DEBUG, ''bflb_wdt_probe started'', []) #
                 (if register_err pdev = 0
                  then [(KERN_INFO, ''bflb_wdt_probe completed...'', [])] else [])\<rparr>))"
  apply (simp add: bflb_wdt_probe_def Let_def split: option.split)
  apply (simp add: watchdog_init_timeout_def watchdog_set_nowayout_def
      watchdog_stop_on_unregister_def watchdog_stop_on_reboot_def kzalloc_wdd_def tick_defs
      probed_wdd_def update_timeout_reg_effect unlock_effect io_defs)
  apply (auto simp add: probed_regs_def probed_bus_def unlocked_def unlock_seq_def bflb_regs
      fun_eq_iff)
  done

lemma probe_mapped:
  "snd (bflb_wdt_probe (pdev_mapped pdev)) =
     \<lparr>wdd = probed_wdd (nowayout_config pdev),
      regs = probed_regs (resource pdev),
      bus = probed_bus (resource pdev),
      klog = (KERN_DEBUG, ''bflb_wdt_probe started'', []) #
             (if register_err pdev = 0
              then [(KERN_INFO, ''bflb_wdt_probe completed...'', [])] else [])\<rparr>"
  by (simp add: probe_effect pdev_mapped_def)

text \<open>
  The checker is strict: keys in the wrong order, or one pair of keys for two protected
  writes, are violations.
\<close>

lemma lock_run_rejects_reversed_keys:
  "\<not> lock_run watchdog_regs Locked
       [Writew BFLB_REG_WSAR BFLB_VAL_WSAR, Writew BFLB_REG_WFAR BFLB_VAL_WFAR,
        Writel BFLB_REG_WMER 1]"
  by (simp add: lock_defs)

lemma lock_run_rejects_shared_keys:
  "\<not> lock_run watchdog_regs Locked
       [Writew BFLB_REG_WFAR BFLB_VAL_WFAR, Writew BFLB_REG_WSAR BFLB_VAL_WSAR,
        Writel BFLB_REG_WMER 1, Writel BFLB_REG_WCR 1]"
  by (simp add: lock_defs)

text \<open>A write to the clock source register is seen, also when keys precede it.\<close>

lemma clock_writes_sees_guarded_write:
  "clock_writes
     [Writew BFLB_REG_WFAR BFLB_VAL_WFAR, Writew BFLB_REG_WSAR BFLB_VAL_WSAR,
      Readl BFLB_REG_TCCR, Writel BFLB_REG_TCCR 0] = [Writel BFLB_REG_TCCR 0]"
  by (simp add: clock_writes_def lock_defs)

section \<open>The claims\<close>

text \<open>
  C1, as stated: every write to one of the five protected registers (mode/enable 0x64,
  match 0x68, ping 0x98, clock source 0x00, pre-divider 0xBC), by any operation and by
  the initialization, comes right after a fresh pair of key writes. The probe breaks it:
  on a platform where the allocation and the mapping succeed, its write to the clock
  source register follows the write to the mode register with no keys in between.
\<close>

theorem probe_clock_writes_without_keys:
  "\<not> lock_run protected_regs Locked (bus (snd (bflb_wdt_probe (pdev_ok (const_regs 0)))))"
  by (simp add: probe_effect pdev_ok_def probed_bus_def lock_defs)

text \<open>
  C1, amended: from any state, the bus accesses of ping, start, stop, set-timeout and
  time-left are exactly the sequences below; none of them writes the clock source register
  or the pre-divider register, and each write to the mode/enable, match or ping register
  comes right after a fresh pair of keys (only the read of the read-modify-write in
  between). The probe keeps that discipline for the three watchdog registers (mode/enable,
  match, ping): its accesses are the keys, the read-modify-write of the mode register, the
  read-modify-writes of the clock source and of the pre-divider with no keys of their own,
  then the keys again and the write of the match register. Those two are the only writes
  to the clock source and the pre-divider that the driver makes.
\<close>

theorem watchdog_writes_follow_keys:
  "issued d (snd (bflb_wdt_ping d)) =
     [Writew BFLB_REG_WFAR BFLB_VAL_WFAR, Writew BFLB_REG_WSAR BFLB_VAL_WSAR,
      Readl BFLB_REG_WCR, Writel BFLB_REG_WCR (regs d BFLB_REG_WCR OR BFLB_VAL_WCR)] \<and>
   issued d (snd (bflb_wdt_start d)) =
     [Writew BFLB_REG_WFAR BFLB_VAL_WFAR, Writew BFLB_REG_WSAR BFLB_VAL_WSAR,
      Readl BFLB_REG_WMER, Writel BFLB_REG_WMER (regs d BFLB_REG_WMER OR BFLB_VAL_WE)] \<and>
   issued d (snd (bflb_wdt_stop d)) =
     [Writew BFLB_REG_WFAR BFLB_VAL_WFAR, Writew BFLB_REG_WSAR BFLB_VAL_WSAR,
      Readl BFLB_REG_WMER,
      Writel BFLB_REG_WMER (regs d BFLB_REG_WMER AND NOT BFLB_VAL_WE)] \<and>
   issued d (snd (bflb_wdt_set_timeout d t)) =
     [Writew BFLB_REG_WFAR BFLB_VAL_WFAR, Writew BFLB_REG_WSAR BFLB_VAL_WSAR,
      Writew BFLB_REG_WMR (ucast (min t (max_timeout (wdd d)) * BFLB_TICKS_PER_SEC))] \<and>
   issued d (snd (bflb_wdt_timeleft d)) =
     [Readw BFLB_REG_WVR] \<and>
   clock_writes (issued d (snd (bflb_wdt_ping d))) = [] \<and>
   clock_writes (issued d (snd (bflb_wdt_start d))) = [] \<and>
   clock_writes (issued d (snd (bflb_wdt_stop d))) = [] \<and>
   clock_writes (issued d (snd (bflb_wdt_set_timeout d t))) = [] \<and>
   clock_writes (issued d (snd (bflb_wdt_timeleft d))) = [] \<and>
   lock_run protected_regs Locked (issued d (snd (bflb_wdt_ping d))) \<and>
   lock_run protected_regs Locked (issued d (snd (bflb_wdt_start d))) \<and>
   lock_run protected_regs Locked (issued d (snd (bflb_wdt_stop d))) \<and>
   lock_run protected_regs Locked (issued d (snd (bflb_wdt_set_timeout d t))) \<and>
   lock_run protected_regs Locked (issued d (snd (bflb_wdt_timeleft d))) \<and>
   lock_run watchdog_regs Locked (bus (snd (bflb_wdt_probe pdev))) \<and>
   bus (snd (bflb_wdt_probe pdev)) =
     (if kzalloc_ok pdev \<and> ioremap_err pdev = None
      then [Writew BFLB_REG_WFAR BFLB_VAL_WFAR, Writew BFLB_REG_WSAR BFLB_VAL_WSAR,
            Readl BFLB_REG_WMER,
            Writel BFLB_REG_WMER
              ((resource pdev BFLB_REG_WMER AND NOT BFLB_VAL_WE) OR BFLB_VAL_WRIE),
            Readl BFLB_REG_TCCR,
            Writel BFLB_REG_TCCR
              ((resource pdev BFLB_REG_TCCR AND NOT BFLB_MASK_CS_WDT) OR BFLB_VAL_CS_1K),
            Readl BFLB_REG_TCDR,
            Writel BFLB_REG_TCDR
              ((resource pdev BFLB_REG_TCDR AND NOT BFLB_MASK_TCDR) OR BFLB_VAL_TCDR),
            Writew BFLB_REG_WFAR BFLB_VAL_WFAR, Writew BFLB_REG_WSAR BFLB_VAL_WSAR,
            Writew BFLB_REG_WMR 240]
      else []) \<and>
   clock_writes (bus (snd (bflb_wdt_probe pdev))) =
     (if kzalloc_ok pdev \<and> ioremap_err pdev = None
      then [Writel BFLB_REG_TCCR
              ((resource pdev BFLB_REG_TCCR AND NOT BFLB_MASK_CS_WDT) OR BFLB_VAL_CS_1K),
            Writel BFLB_REG_TCDR
              ((resource pdev BFLB_REG_TCDR AND NOT BFLB_MASK_TCDR) OR BFLB_VAL_TCDR)]
      else [])"
proof -
  have t_ping: "issued d (snd (bflb_wdt_ping d)) =
     [Writew BFLB_REG_WFAR BFLB_VAL_WFAR, Writew BFLB_REG_WSAR BFLB_VAL_WSAR,
      Readl BFLB_REG_WCR, Writel BFLB_REG_WCR (regs d BFLB_REG_WCR OR BFLB_VAL_WCR)]"
    by (simp add: ping_effect issued_def unlock_seq_def)
  have t_start: "issued d (snd (bflb_wdt_start d)) =
     [Writew BFLB_REG_WFAR BFLB_VAL_WFAR, Writew BFLB_REG_WSAR BFLB_VAL_WSAR,
      Readl BFLB_REG_WMER, Writel BFLB_REG_WMER (regs d BFLB_REG_WMER OR BFLB_VAL_WE)]"
    by (simp add: start_effect issued_def unlock_seq_def)
  have t_stop: "issued d (snd (bflb_wdt_stop d)) =
     [Writew BFLB_REG_WFAR BFLB_VAL_WFAR, Writew BFLB_REG_WSAR BFLB_VAL_WSAR,
      Readl BFLB_REG_WMER,
      Writel BFLB_REG_WMER (regs d BFLB_REG_WMER AND NOT BFLB_VAL_WE)]"
    by (simp add: stop_effect issued_def unlock_seq_def)
  have t_set_timeout: "issued d (snd (bflb_wdt_set_timeout d t)) =
     [Writew BFLB_REG_WFAR BFLB_VAL_WFAR, Writew BFLB_REG_WSAR BFLB_VAL_WSAR,
      Writew BFLB_REG_WMR (ucast (min t (max_timeout (wdd d)) * BFLB_TICKS_PER_SEC))]"
    by (simp add: set_timeout_effect issued_def unlock_seq_def)
  have t_timeleft: "issued d (snd (bflb_wdt_timeleft d)) =
     [Readw BFLB_REG_WVR]"
    by (simp add: timeleft_effect issued_def unlock_seq_def)
  have c_ping: "clock_writes (issued d (snd (bflb_wdt_ping d))) = []"
    by (simp add: ping_effect issued_def clock_writes_def lock_defs)
  have c_start: "clock_writes (issued d (snd (bflb_wdt_start d))) = []"
    by (simp add: start_effect issued_def clock_writes_def lock_defs)
  have c_stop: "clock_writes (issued d (snd (bflb_wdt_stop d))) = []"
    by (simp add: stop_effect issued_def clock_writes_def lock_defs)
  have c_set_timeout: "clock_writes (issued d (snd (bflb_wdt_set_timeout d t))) = []"
    by (simp add: set_timeout_effect issued_def clock_writes_def lock_defs)
  have c_timeleft: "clock_writes (issued d (snd (bflb_wdt_timeleft d))) = []"
    by (simp add: timeleft_effect issued_def clock_writes_def lock_defs)
  have l_ping: "lock_run protected_regs Locked (issued d (snd (bflb_wdt_ping d)))"
    by (simp add: ping_effect issued_def lock_defs)
  have l_start: "lock_run protected_regs Locked (issued d (snd (bflb_wdt_start d)))"
    by (simp add: start_effect issued_def lock_defs)
  have l_stop: "lock_run protected_regs Locked (issued d (snd (bflb_wdt_stop d)))"
    by (simp add: stop_effect issued_def lock_defs)
  have l_set_timeout: "lock_run protected_regs Locked (issued d (snd (bflb_wdt_set_timeout d t)))"
    by (simp add: set_timeout_effect issued_def lock_defs)
  have l_timeleft: "lock_run protected_regs Locked (issued d (snd (bflb_wdt_timeleft d)))"
    by (simp add: timeleft_effect issued_def lock_defs)
  have l_probe: "lock_run watchdog_regs Locked (bus (snd (bflb_wdt_probe pdev)))"
    by (simp add: probe_effect probed_bus_def lock_defs split: option.split)
  have t_probe: "bus (snd (bflb_wdt_probe pdev)) =
     (if kzalloc_ok pdev \<and> ioremap_err pdev = None
      then [Writew BFLB_REG_WFAR BFLB_VAL_WFAR, Writew BFLB_REG_WSAR BFLB_VAL_WSAR,
            Readl BFLB_REG_WMER,
            Writel BFLB_REG_WMER
              ((resource pdev BFLB_REG_WMER AND NOT BFLB_VAL_WE) OR BFLB_VAL_WRIE),
            Readl BFLB_REG_TCCR,
            Writel BFLB_REG_TCCR
              ((resource pdev BFLB_REG_TCCR AND NOT BFLB_MASK_CS_WDT) OR BFLB_VAL_CS_1K),
            Readl BFLB_REG_TCDR,
            Writel BFLB_REG_TCDR
              ((resource pdev BFLB_REG_TCDR AND NOT BFLB_MASK_TCDR) OR BFLB_VAL_TCDR),
            Writew BFLB_REG_WFAR BFLB_VAL_WFAR, Writew BFLB_REG_WSAR BFLB_VAL_WSAR,
            Writew BFLB_REG_WMR 240]
      else [])"
    by (simp add: probe_effect probed_bus_def unlock_seq_def split: option.split)
  have c_probe: "clock_writes (bus (snd (bflb_wdt_probe pdev))) =
     (if kzalloc_ok pdev \<and> ioremap_err pdev = None
      then [Writel BFLB_REG_TCCR
              ((resource pdev BFLB_REG_TCCR AND NOT BFLB_MASK_CS_WDT) OR BFLB_VAL_CS_1K),
            Writel BFLB_REG_TCDR
              ((resource pdev BFLB_REG_TCDR AND NOT BFLB_MASK_TCDR) OR BFLB_VAL_TCDR)]
      else [])"
    by (simp add: probe_effect probed_bus_def clock_writes_def lock_defs split: option.split)
  from t_ping t_start t_stop t_set_timeout t_timeleft c_ping c_start c_stop
    c_set_timeout c_timeleft l_ping l_start l_stop l_set_timeout l_timeleft l_probe t_probe c_probe
  show ?thesis by (intro conjI)
qed

text \<open>
  C2: for every requested timeout \<open>t\<close>, set-timeout stores \<open>min t max_timeout\<close> as the
  current timeout; it takes the clamping branch, and logs the warning, exactly when
  \<open>t \<ge> max_timeout\<close>; it then writes the keys and the low 16 bits of
  \<open>timeout * BFLB_TICKS_PER_SEC\<close> to the match register, and nothing else: the
  mode/enable register is not touched, so no stop/start cycle is involved.
\<close>

theorem set_timeout_clamps_and_writes_match:
  "timeout (wdd (snd (bflb_wdt_set_timeout d t))) = min t (max_timeout (wdd d)) \<and>
   min t (max_timeout (wdd d)) = (if t \<ge> max_timeout (wdd d) then max_timeout (wdd d) else t) \<and>
   logged d (snd (bflb_wdt_set_timeout d t)) =
     (if t \<ge> max_timeout (wdd d)
      then [(KERN_WARNING, ''timeout %i > max_timeout %i, using max_timeout...'',
             [t, max_timeout (wdd d)])]
      else []) @
     [(KERN_DEBUG, ''bflb_wdt_set_timeout (s=%i tps=%i)'',
       [min t (max_timeout (wdd d)), BFLB_TICKS_PER_SEC])] \<and>
   issued d (snd (bflb_wdt_set_timeout d t)) =
     [Writew BFLB_REG_WFAR BFLB_VAL_WFAR, Writew BFLB_REG_WSAR BFLB_VAL_WSAR,
      Writew BFLB_REG_WMR (ucast (min t (max_timeout (wdd d)) * BFLB_TICKS_PER_SEC))] \<and>
   regs (snd (bflb_wdt_set_timeout d t)) BFLB_REG_WMR AND BFLB_MASK_WMR =
     (min t (max_timeout (wdd d)) * BFLB_TICKS_PER_SEC) AND BFLB_MASK_WMR \<and>
   unat (ucast (min t (max_timeout (wdd d)) * BFLB_TICKS_PER_SEC) :: u16) =
     (unat (min t (max_timeout (wdd d))) * 4) mod 65536 \<and>
   regs (snd (bflb_wdt_set_timeout d t)) BFLB_REG_WMER = regs d BFLB_REG_WMER"
proof -
  let ?d' = "snd (bflb_wdt_set_timeout d t)"
  let ?m = "min t (max_timeout (wdd d))"
  have a: "timeout (wdd ?d') = ?m"
    by (simp add: set_timeout_effect)
  have b: "?m = (if t \<ge> max_timeout (wdd d) then max_timeout (wdd d) else t)"
    by (auto simp: min_def)
  have c: "logged d ?d' =
     (if t \<ge> max_timeout (wdd d)
      then [(KERN_WARNING, ''timeout %i > max_timeout %i, using max_timeout...'',
             [t, max_timeout (wdd d)])]
      else []) @
     [(KERN_DEBUG, ''bflb_wdt_set_timeout (s=%i tps=%i)'', [?m, BFLB_TICKS_PER_SEC])]"
    by (simp add: set_timeout_effect logged_def)
  have e: "issued d ?d' =
     [Writew BFLB_REG_WFAR BFLB_VAL_WFAR, Writew BFLB_REG_WSAR BFLB_VAL_WSAR,
      Writew BFLB_REG_WMR (ucast (?m * BFLB_TICKS_PER_SEC))]"
    by (simp add: set_timeout_effect issued_def unlock_seq_def)
  have "regs ?d' BFLB_REG_WMR AND 0xFFFF = ucast (ucast (?m * BFLB_TICKS_PER_SEC) :: u16)"
    by (simp add: set_timeout_effect store16_low)
  also have "\<dots> = (?m * BFLB_TICKS_PER_SEC) AND 0xFFFF"
    by (rule ucast_low16)
  finally have f: "regs ?d' BFLB_REG_WMR AND BFLB_MASK_WMR =
      (?m * BFLB_TICKS_PER_SEC) AND BFLB_MASK_WMR"
    by (simp only: mask_wmr)
  have g: "unat (ucast (?m * BFLB_TICKS_PER_SEC) :: u16) = (unat ?m * 4) mod 65536"
    by (rule unat_ticks16)
  have h: "regs ?d' BFLB_REG_WMER = regs d BFLB_REG_WMER"
    by (simp add: set_timeout_effect unlocked_def bflb_regs)
  from a b c e f g h show ?thesis by (intro conjI)
qed

text \<open>
  C3: for every content \<open>e\<close> of the 16-bit elapsed-tick counter, time-left returns
  \<open>max_timeout - e div BFLB_TICKS_PER_SEC\<close>, the division truncating. The configured
  timeout plays no part: with the counter at zero the result is \<open>max_timeout\<close>, whatever
  the current timeout is.
\<close>

theorem timeleft_against_max_timeout:
  "fst (bflb_wdt_timeleft d) =
     max_timeout (wdd d) - ucast (ucast (regs d BFLB_REG_WVR) :: u16) div BFLB_TICKS_PER_SEC \<and>
   unat (ucast (ucast (regs d BFLB_REG_WVR) :: u16) div BFLB_TICKS_PER_SEC :: u32) =
     unat (ucast (regs d BFLB_REG_WVR) :: u16) div 4 \<and>
   fst (bflb_wdt_timeleft (d\<lparr>wdd := (wdd d)\<lparr>timeout := t\<rparr>\<rparr>)) = fst (bflb_wdt_timeleft d) \<and>
   fst (bflb_wdt_timeleft (d\<lparr>regs := (regs d)(BFLB_REG_WVR := 0)\<rparr>)) = max_timeout (wdd d)"
  by (simp add: timeleft_effect unat_used_seconds)

text \<open>
  C4, as stated: set-timeout returns the accepted timeout \<open>min t max_timeout\<close>. It does
  not: after a probe, the request of 60 seconds is accepted as 60 and the call returns 0.
\<close>

theorem set_timeout_result_is_not_the_timeout:
  "fst (bflb_wdt_set_timeout (snd (bflb_wdt_probe (pdev_ok (const_regs 0)))) 60)
     \<noteq> uint (min 60 (max_timeout (wdd (snd (bflb_wdt_probe (pdev_ok (const_regs 0)))))))"
  by (simp add: set_timeout_effect probe_effect pdev_ok_def probed_wdd_def)

text \<open>
  C4, amended: for every requested timeout \<open>t\<close>, set-timeout returns 0, the status of
  success; the accepted timeout \<open>min t max_timeout\<close> is what it leaves in the timeout
  field of the device.
\<close>

theorem set_timeout_returns_zero:
  "fst (bflb_wdt_set_timeout d t) = 0 \<and>
   timeout (wdd (snd (bflb_wdt_set_timeout d t))) = min t (max_timeout (wdd d))"
  by (simp add: set_timeout_effect)

text \<open>
  C5: the constants are 4 ticks per second, a maximum of 16383 seconds, a default of 60
  seconds and a minimum of 1 second. After a probe, set-timeout of 60 writes 240 to the
  match register with no warning, and set-timeout of 20000 is clamped to 16383, writes
  65532 and logs the warning.
\<close>

theorem timing_constants:
  "BFLB_TICKS_PER_SEC = 4 \<and> BFLB_MAX_SECS = 16383 \<and> BFLB_DEFAULT_TIMEOUT = 60 \<and>
   (let d0 = snd (bflb_wdt_probe (pdev_mapped pdev));
        d1 = snd (bflb_wdt_set_timeout d0 60);
        d2 = snd (bflb_wdt_set_timeout d0 20000)
    in timeout (wdd d0) = 60 \<and> min_timeout (wdd d0) = 1 \<and> max_timeout (wdd d0) = 16383 \<and>
       timeout (wdd d1) = 60 \<and>
       issued d0 d1 = [Writew BFLB_REG_WFAR BFLB_VAL_WFAR, Writew BFLB_REG_WSAR BFLB_VAL_WSAR,
                       Writew BFLB_REG_WMR 240] \<and>
       regs d1 BFLB_REG_WMR AND BFLB_MASK_WMR = 240 \<and>
       logged d0 d1 = [(KERN_DEBUG, ''bflb_wdt_set_timeout (s=%i tps=%i)'', [60, 4])] \<and>
       timeout (wdd d2) = 16383 \<and>
       issued d0 d2 = [Writew BFLB_REG_WFAR BFLB_VAL_WFAR, Writew BFLB_REG_WSAR BFLB_VAL_WSAR,
                       Writew BFLB_REG_WMR 65532] \<and>
       regs d2 BFLB_REG_WMR AND BFLB_MASK_WMR = 65532 \<and>
       logged d0 d2 =
         [(KERN_WARNING, ''timeout %i > max_timeout %i, using max_timeout...'', [20000, 16383]),
          (KERN_DEBUG, ''bflb_wdt_set_timeout (s=%i tps=%i)'', [16383, 4])])"
proof -
  have c: "BFLB_TICKS_PER_SEC = 4" "BFLB_MAX_SECS = 16383" "BFLB_DEFAULT_TIMEOUT = 60"
    by (simp_all add: tick_defs)
  show ?thesis
    unfolding Let_def
    by (simp add: c probe_mapped set_timeout_effect probed_wdd_def issued_def logged_def
        unlock_seq_def mask_wmr store16_low)
qed

text \<open>
  C6: from every state, stop changes the mode/enable register in bit 0 alone, which it
  clears (besides the two key registers, no other register and no field of the device
  changes). Start followed by stop leaves bit 0 clear and every other bit as it was; after
  a probe that is: enable clear, reset-interrupt-enable set.
\<close>

theorem stop_clears_only_enable:
  "regs (snd (bflb_wdt_stop d)) =
     (regs d)(BFLB_REG_WFAR := store16 (regs d BFLB_REG_WFAR) BFLB_VAL_WFAR,
              BFLB_REG_WSAR := store16 (regs d BFLB_REG_WSAR) BFLB_VAL_WSAR,
              BFLB_REG_WMER := regs d BFLB_REG_WMER AND NOT BFLB_VAL_WE) \<and>
   bit (regs (snd (bflb_wdt_stop d)) BFLB_REG_WMER) n = (n \<noteq> 0 \<and> bit (regs d BFLB_REG_WMER) n) \<and>
   wdd (snd (bflb_wdt_stop d)) = wdd d \<and>
   bit (regs (snd (bflb_wdt_stop (snd (bflb_wdt_start d)))) BFLB_REG_WMER) n =
     (n \<noteq> 0 \<and> bit (regs d BFLB_REG_WMER) n) \<and>
   \<not> bit (regs (snd (bflb_wdt_stop (snd (bflb_wdt_start
          (snd (bflb_wdt_probe (pdev_mapped pdev))))))) BFLB_REG_WMER) 0 \<and>
   bit (regs (snd (bflb_wdt_stop (snd (bflb_wdt_start
          (snd (bflb_wdt_probe (pdev_mapped pdev))))))) BFLB_REG_WMER) 1"
proof -
  have a: "regs (snd (bflb_wdt_stop d)) =
     (regs d)(BFLB_REG_WFAR := store16 (regs d BFLB_REG_WFAR) BFLB_VAL_WFAR,
              BFLB_REG_WSAR := store16 (regs d BFLB_REG_WSAR) BFLB_VAL_WSAR,
              BFLB_REG_WMER := regs d BFLB_REG_WMER AND NOT BFLB_VAL_WE)"
    by (simp add: stop_effect unlocked_def)
  have b: "bit (regs (snd (bflb_wdt_stop d)) BFLB_REG_WMER) n =
      (n \<noteq> 0 \<and> bit (regs d BFLB_REG_WMER) n)"
    by (auto simp add: stop_effect BFLB_VAL_WE_def bit_simps dest: bit_imp_le_length)
  have c: "wdd (snd (bflb_wdt_stop d)) = wdd d"
    by (simp add: stop_effect)
  have e: "bit (regs (snd (bflb_wdt_stop (snd (bflb_wdt_start d)))) BFLB_REG_WMER) n =
     (n \<noteq> 0 \<and> bit (regs d BFLB_REG_WMER) n)"
    by (auto simp add: stop_effect start_effect BFLB_VAL_WE_def bit_simps
        dest: bit_imp_le_length)
  have f: "regs (snd (bflb_wdt_stop (snd (bflb_wdt_start
          (snd (bflb_wdt_probe (pdev_mapped pdev))))))) BFLB_REG_WMER =
          ((((resource pdev BFLB_REG_WMER AND NOT 1) OR 2) OR 1) AND NOT 1)"
    by (simp add: stop_effect start_effect probe_mapped probed_regs_def bflb_regs bflb_vals)
  have g: "\<not> bit ((((x AND NOT 1) OR 2) OR 1) AND NOT 1) 0"
          "bit ((((x AND NOT 1) OR 2) OR 1) AND NOT 1) (Suc 0)" for x :: u32
    by (simp_all add: bit_simps)
  from a b c e show ?thesis unfolding f using g by simp
qed

text \<open>
  C7: with the block mapped, the probe leaves the mode/enable register with bit 0 (enable)
  clear, bit 1 (reset-interrupt-enable) set and the other bits as found; the bits 8 to 11
  of the register at 0x00 equal to 2, the encoding \<open>BFLB_VAL_CS_1K\<close>, and its other bits
  as found; the top byte of the register at 0xBC equal to 0xFF and its low three bytes as
  found. Its last bus access is the write of \<open>timeout * BFLB_TICKS_PER_SEC\<close> to the match
  register, for the timeout then current (the default). The watchdog is left stopped.
\<close>

theorem probe_programs_registers:
  "regs (snd (bflb_wdt_probe (pdev_mapped pdev))) BFLB_REG_WMER =
     (resource pdev BFLB_REG_WMER AND NOT BFLB_VAL_WE) OR BFLB_VAL_WRIE \<and>
   bit (regs (snd (bflb_wdt_probe (pdev_mapped pdev))) BFLB_REG_WMER) n =
     (n = 1 \<or> (n \<noteq> 0 \<and> bit (resource pdev BFLB_REG_WMER) n)) \<and>
   regs (snd (bflb_wdt_probe (pdev_mapped pdev))) BFLB_REG_TCCR =
     (resource pdev BFLB_REG_TCCR AND NOT BFLB_MASK_CS_WDT) OR BFLB_VAL_CS_1K \<and>
   drop_bit 8 (regs (snd (bflb_wdt_probe (pdev_mapped pdev))) BFLB_REG_TCCR) AND 0xF = 2 \<and>
   regs (snd (bflb_wdt_probe (pdev_mapped pdev))) BFLB_REG_TCCR AND NOT 0xF00 =
     resource pdev BFLB_REG_TCCR AND NOT 0xF00 \<and>
   regs (snd (bflb_wdt_probe (pdev_mapped pdev))) BFLB_REG_TCDR =
     (resource pdev BFLB_REG_TCDR AND NOT BFLB_MASK_TCDR) OR BFLB_VAL_TCDR \<and>
   drop_bit 24 (regs (snd (bflb_wdt_probe (pdev_mapped pdev))) BFLB_REG_TCDR) = 0xFF \<and>
   regs (snd (bflb_wdt_probe (pdev_mapped pdev))) BFLB_REG_TCDR AND 0x00FFFFFF =
     resource pdev BFLB_REG_TCDR AND 0x00FFFFFF \<and>
   timeout (wdd (snd (bflb_wdt_probe (pdev_mapped pdev)))) = BFLB_DEFAULT_TIMEOUT \<and>
   last (bus (snd (bflb_wdt_probe (pdev_mapped pdev)))) =
     Writew BFLB_REG_WMR
       (ucast (timeout (wdd (snd (bflb_wdt_probe (pdev_mapped pdev)))) * BFLB_TICKS_PER_SEC)) \<and>
   regs (snd (bflb_wdt_probe (pdev_mapped pdev))) BFLB_REG_WMR AND BFLB_MASK_WMR =
     timeout (wdd (snd (bflb_wdt_probe (pdev_mapped pdev)))) * BFLB_TICKS_PER_SEC \<and>
   \<not> bit (regs (snd (bflb_wdt_probe (pdev_mapped pdev))) BFLB_REG_WMER) 0 \<and>
   bit (regs (snd (bflb_wdt_probe (pdev_mapped pdev))) BFLB_REG_WMER) 1"
proof -
  let ?d = "snd (bflb_wdt_probe (pdev_mapped pdev))"
  let ?r = "resource pdev"
  have wmer: "regs ?d BFLB_REG_WMER = (?r BFLB_REG_WMER AND NOT 1) OR 2"
    by (simp add: probe_mapped probed_regs_def bflb_regs bflb_vals)
  have tccr: "regs ?d BFLB_REG_TCCR = (?r BFLB_REG_TCCR AND NOT 0xF00) OR 0x200"
    by (simp add: probe_mapped probed_regs_def bflb_regs bflb_vals)
  have tcdr: "regs ?d BFLB_REG_TCDR = (?r BFLB_REG_TCDR AND NOT 0xFF000000) OR 0xFF000000"
    by (simp add: probe_mapped probed_regs_def bflb_regs bflb_vals)
  have wmr: "regs ?d BFLB_REG_WMR = store16 (?r BFLB_REG_WMR) 240"
    by (simp add: probe_mapped probed_regs_def bflb_regs)
  have tmo: "timeout (wdd ?d) = 60"
    by (simp add: probe_mapped probed_wdd_def)
  have lst: "last (bus ?d) = Writew BFLB_REG_WMR 240"
    by (simp add: probe_mapped probed_bus_def)
  have 1: "regs ?d BFLB_REG_WMER = (?r BFLB_REG_WMER AND NOT BFLB_VAL_WE) OR BFLB_VAL_WRIE"
    by (simp add: wmer bflb_vals)
  have 2: "bit (regs ?d BFLB_REG_WMER) n = (n = 1 \<or> (n \<noteq> 0 \<and> bit (?r BFLB_REG_WMER) n))"
    unfolding wmer by (rule mode_bits)
  have 3: "regs ?d BFLB_REG_TCCR = (?r BFLB_REG_TCCR AND NOT BFLB_MASK_CS_WDT) OR BFLB_VAL_CS_1K"
    by (simp add: tccr bflb_vals)
  have 4: "drop_bit 8 (regs ?d BFLB_REG_TCCR) AND 0xF = 2"
    unfolding tccr by (rule cs_field)
  have 5: "regs ?d BFLB_REG_TCCR AND NOT 0xF00 = ?r BFLB_REG_TCCR AND NOT 0xF00"
    unfolding tccr by (rule cs_field)
  have 6: "regs ?d BFLB_REG_TCDR = (?r BFLB_REG_TCDR AND NOT BFLB_MASK_TCDR) OR BFLB_VAL_TCDR"
    by (simp add: tcdr bflb_vals)
  have 7: "drop_bit 24 (regs ?d BFLB_REG_TCDR) = 0xFF"
    unfolding tcdr by (rule div_field)
  have 8: "regs ?d BFLB_REG_TCDR AND 0x00FFFFFF = ?r BFLB_REG_TCDR AND 0x00FFFFFF"
    unfolding tcdr by (rule div_field)
  have 9: "timeout (wdd ?d) = BFLB_DEFAULT_TIMEOUT"
    by (simp add: tmo tick_defs)
  have 10: "last (bus ?d) = Writew BFLB_REG_WMR (ucast (timeout (wdd ?d) * BFLB_TICKS_PER_SEC))"
    by (simp add: lst tmo tick_defs)
  have 11: "regs ?d BFLB_REG_WMR AND BFLB_MASK_WMR = timeout (wdd ?d) * BFLB_TICKS_PER_SEC"
    by (simp add: wmr tmo tick_defs mask_wmr store16_low)
  have 12: "\<not> bit (regs ?d BFLB_REG_WMER) 0" "bit (regs ?d BFLB_REG_WMER) 1"
    unfolding wmer mode_bits by simp_all
  from 1 2 3 4 5 6 7 8 9 10 11 12 show ?thesis by (intro conjI)
qed

text \<open>
  C8: start is idempotent. From every state, the register block after two calls of start
  equals the block after one, the mode/enable register in particular: one call sets bit 0
  and leaves the other bits, and the second writes the same value again.
\<close>

theorem start_idempotent:
  "regs (snd (bflb_wdt_start (snd (bflb_wdt_start d)))) = regs (snd (bflb_wdt_start d)) \<and>
   regs (snd (bflb_wdt_start (snd (bflb_wdt_start d)))) BFLB_REG_WMER =
     regs (snd (bflb_wdt_start d)) BFLB_REG_WMER \<and>
   regs (snd (bflb_wdt_start d)) BFLB_REG_WMER = regs d BFLB_REG_WMER OR BFLB_VAL_WE \<and>
   bit (regs (snd (bflb_wdt_start d)) BFLB_REG_WMER) n = (n = 0 \<or> bit (regs d BFLB_REG_WMER) n) \<and>
   wdd (snd (bflb_wdt_start (snd (bflb_wdt_start d)))) = wdd (snd (bflb_wdt_start d))"
proof -
  have a: "regs (snd (bflb_wdt_start (snd (bflb_wdt_start d)))) = regs (snd (bflb_wdt_start d))"
    by (rule ext) (simp add: start_effect unlocked_def bflb_regs word_bw_assocs)
  have b: "regs (snd (bflb_wdt_start d)) BFLB_REG_WMER = regs d BFLB_REG_WMER OR BFLB_VAL_WE"
    by (simp add: start_effect)
  have c: "bit (regs (snd (bflb_wdt_start d)) BFLB_REG_WMER) n =
      (n = 0 \<or> bit (regs d BFLB_REG_WMER) n)"
    by (auto simp add: start_effect BFLB_VAL_WE_def bit_simps)
  have e: "wdd (snd (bflb_wdt_start (snd (bflb_wdt_start d)))) = wdd (snd (bflb_wdt_start d))"
    by (simp add: start_effect)
  from a b c e show ?thesis by simp
qed

text \<open>
  C9: from every state, whatever the enable bit says (the function has no branch), ping
  writes the two keys, reads the ping register and writes it back with bit 0 set and the
  other bits as read. It changes no field of the device, so not the configured timeout,
  and neither the match register nor the mode/enable register.
\<close>

theorem ping_sets_only_reset_bit:
  "fst (bflb_wdt_ping d) = 0 \<and>
   issued d (snd (bflb_wdt_ping d)) =
     [Writew BFLB_REG_WFAR BFLB_VAL_WFAR, Writew BFLB_REG_WSAR BFLB_VAL_WSAR,
      Readl BFLB_REG_WCR, Writel BFLB_REG_WCR (regs d BFLB_REG_WCR OR BFLB_VAL_WCR)] \<and>
   regs (snd (bflb_wdt_ping d)) =
     (regs d)(BFLB_REG_WFAR := store16 (regs d BFLB_REG_WFAR) BFLB_VAL_WFAR,
              BFLB_REG_WSAR := store16 (regs d BFLB_REG_WSAR) BFLB_VAL_WSAR,
              BFLB_REG_WCR := regs d BFLB_REG_WCR OR BFLB_VAL_WCR) \<and>
   bit (regs (snd (bflb_wdt_ping d)) BFLB_REG_WCR) n = (n = 0 \<or> bit (regs d BFLB_REG_WCR) n) \<and>
   wdd (snd (bflb_wdt_ping d)) = wdd d \<and>
   regs (snd (bflb_wdt_ping d)) BFLB_REG_WMR = regs d BFLB_REG_WMR \<and>
   regs (snd (bflb_wdt_ping d)) BFLB_REG_WMER = regs d BFLB_REG_WMER"
proof -
  have a: "issued d (snd (bflb_wdt_ping d)) =
     [Writew BFLB_REG_WFAR BFLB_VAL_WFAR, Writew BFLB_REG_WSAR BFLB_VAL_WSAR,
      Readl BFLB_REG_WCR, Writel BFLB_REG_WCR (regs d BFLB_REG_WCR OR BFLB_VAL_WCR)]"
    by (simp add: ping_effect issued_def unlock_seq_def)
  have b: "regs (snd (bflb_wdt_ping d)) =
     (regs d)(BFLB_REG_WFAR := store16 (regs d BFLB_REG_WFAR) BFLB_VAL_WFAR,
              BFLB_REG_WSAR := store16 (regs d BFLB_REG_WSAR) BFLB_VAL_WSAR,
              BFLB_REG_WCR := regs d BFLB_REG_WCR OR BFLB_VAL_WCR)"
    by (simp add: ping_effect unlocked_def)
  have c: "bit (regs (snd (bflb_wdt_ping d)) BFLB_REG_WCR) n =
      (n = 0 \<or> bit (regs d BFLB_REG_WCR) n)"
    by (auto simp add: ping_effect BFLB_VAL_WCR_def bit_simps)
  have e: "wdd (snd (bflb_wdt_ping d)) = wdd d" "fst (bflb_wdt_ping d) = 0"
    by (simp_all add: ping_effect)
  have f: "regs (snd (bflb_wdt_ping d)) BFLB_REG_WMR = regs d BFLB_REG_WMR"
          "regs (snd (bflb_wdt_ping d)) BFLB_REG_WMER = regs d BFLB_REG_WMER"
    by (simp_all add: ping_effect unlocked_def bflb_regs)
  from a b c e f show ?thesis by simp
qed

text \<open>
  C10: with \<open>max_timeout\<close> at \<open>BFLB_MAX_SECS\<close>, as the probe sets it, time-left cannot
  underflow: for every content \<open>e\<close> of the 16-bit counter, \<open>e div 4 \<le> 16383\<close>, the result
  is \<open>16383 - e div 4\<close> as a number, and it is at most \<open>max_timeout\<close>.
\<close>

theorem timeleft_no_underflow:
  assumes "max_timeout (wdd d) = BFLB_MAX_SECS"
  shows "unat (ucast (regs d BFLB_REG_WVR) :: u16) div 4 \<le> 16383 \<and>
         unat (fst (bflb_wdt_timeleft d)) =
           16383 - unat (ucast (regs d BFLB_REG_WVR) :: u16) div 4 \<and>
         unat (fst (bflb_wdt_timeleft d)) \<le> unat (max_timeout (wdd d))"
proof -
  let ?e = "ucast (regs d BFLB_REG_WVR) :: u16"
  let ?used = "ucast ?e div BFLB_TICKS_PER_SEC :: u32"
  have "unat ?e < 2 ^ 16" using unsigned_less [of ?e] by simp
  then have le: "unat ?e div 4 \<le> 16383" by simp
  have m: "unat BFLB_MAX_SECS = 16383" by (simp add: tick_defs)
  have u: "unat ?used = unat ?e div 4" by (rule unat_used_seconds)
  have "?used \<le> BFLB_MAX_SECS"
    using le by (simp add: word_le_nat_alt m u)
  then have "unat (BFLB_MAX_SECS - ?used) = unat BFLB_MAX_SECS - unat ?used"
    by (rule unat_sub)
  then have r: "unat (fst (bflb_wdt_timeleft d)) = 16383 - unat ?e div 4"
    by (simp add: timeleft_effect assms m u)
  from le r show ?thesis by (simp add: assms m)
qed

text \<open>
  The hypothesis of C10 holds after a probe; with the counter at its largest value,
  65535, the time left is 0.
\<close>

theorem timeleft_no_underflow_witness:
  "max_timeout (wdd (snd (bflb_wdt_probe (pdev_ok (const_regs 0xFFFF))))) = BFLB_MAX_SECS \<and>
   unat (fst (bflb_wdt_timeleft (snd (bflb_wdt_probe (pdev_ok (const_regs 0xFFFF)))))) = 0"
proof -
  have h: "max_timeout (wdd (snd (bflb_wdt_probe (pdev_ok (const_regs 0xFFFF))))) = BFLB_MAX_SECS"
    by (simp add: probe_effect pdev_ok_def probed_wdd_def tick_defs)
  have e: "regs (snd (bflb_wdt_probe (pdev_ok (const_regs 0xFFFF)))) BFLB_REG_WVR = 0xFFFF"
    by (simp add: probe_effect pdev_ok_def probed_regs_def unlocked_def bflb_regs const_regs_def)
  show ?thesis using h timeleft_no_underflow [OF h] by (simp add: e)
qed

end
